theory Spec2Isabelle
  imports Complex_Main "HOL-Library.Stream" "HOL-Library.Multiset"
begin

section \<open>Floating-point values\<close>

text \<open>
  The program computes with Python floats and numpy \<open>float64\<close> values. A value is
  either finite, or one of the IEEE special values that the arithmetic produces
  instead of raising: the two infinities, NaN and the negative zero. \<open>Fin 0\<close> is
  \<open>+0.0\<close> and \<open>NegZero\<close> is \<open>-0.0\<close>.

  The range of \<open>float64\<close> is modelled: an operation whose exact result has a
  magnitude of at least \<open>float_overflow\<close> returns an infinity (or raises, where Python
  raises), and one whose exact result has a magnitude of at most \<open>float_underflow\<close>
  returns a zero. The rounding of a result that lies inside the range to 53 significant
  bits is not modelled: there the operation returns the exact real result.
\<close>

datatype npfloat = Fin real | NegZero | PInf | NInf | NaN

datatype py_error = ZeroDivisionError | OverflowError | ValueError | IndexError | TypeError

text \<open>
  \<open>float_overflow\<close> is halfway between the largest finite \<open>float64\<close> and \<open>2^1024\<close>,
  the least magnitude that rounds to an infinity; \<open>float_underflow\<close> is half the
  smallest subnormal number, the greatest magnitude that rounds to zero.
\<close>

definition float_overflow :: real where
  "float_overflow = 2 ^ 1024 - 2 ^ 970"

definition float_underflow :: real where
  "float_underflow = 1 / 2 ^ 1075"

definition in_float_range :: "real \<Rightarrow> bool" where
  "in_float_range x = (x = 0 \<or> (float_underflow < \<bar>x\<bar> \<and> \<bar>x\<bar> < float_overflow))"

fun signbit :: "npfloat \<Rightarrow> bool" where
  "signbit (Fin x) = (x < 0)"
| "signbit NegZero = True"
| "signbit PInf = False"
| "signbit NInf = True"
| "signbit NaN = False"

fun is_zero :: "npfloat \<Rightarrow> bool" where
  "is_zero (Fin x) = (x = 0)"
| "is_zero NegZero = True"
| "is_zero PInf = False"
| "is_zero NInf = False"
| "is_zero NaN = False"

fun is_inf :: "npfloat \<Rightarrow> bool" where
  "is_inf (Fin x) = False"
| "is_inf NegZero = False"
| "is_inf PInf = True"
| "is_inf NInf = True"
| "is_inf NaN = False"

fun is_nan :: "npfloat \<Rightarrow> bool" where
  "is_nan (Fin x) = False"
| "is_nan NegZero = False"
| "is_nan PInf = False"
| "is_nan NInf = False"
| "is_nan NaN = True"

text \<open>The real value of a finite float; both zeros have the value 0.\<close>

fun np_real :: "npfloat \<Rightarrow> real" where
  "np_real (Fin x) = x"
| "np_real NegZero = 0"
| "np_real PInf = 0"
| "np_real NInf = 0"
| "np_real NaN = 0"

definition is_finite :: "npfloat \<Rightarrow> bool" where
  "is_finite a = (\<not> is_nan a \<and> \<not> is_inf a)"

definition zero_sign :: "bool \<Rightarrow> npfloat" where
  "zero_sign neg = (if neg then NegZero else Fin 0)"

definition inf_sign :: "bool \<Rightarrow> npfloat" where
  "inf_sign neg = (if neg then NInf else PInf)"

text \<open>
  The float that an operation on finite operands returns when its exact result is \<open>x\<close>:
  an infinity on overflow, a zero on underflow. \<open>neg\<close> is the sign bit that an exactly
  zero result gets.
\<close>

definition fin_sign :: "bool \<Rightarrow> real \<Rightarrow> npfloat" where
  "fin_sign neg x =
     (if x = 0 then zero_sign neg
      else if float_overflow \<le> \<bar>x\<bar> then inf_sign (x < 0)
      else if \<bar>x\<bar> \<le> float_underflow then zero_sign (x < 0)
      else Fin x)"

text \<open>Unary minus flips the sign bit.\<close>

fun np_neg :: "npfloat \<Rightarrow> npfloat" where
  "np_neg (Fin x) = (if x = 0 then NegZero else Fin (- x))"
| "np_neg NegZero = Fin 0"
| "np_neg PInf = NInf"
| "np_neg NInf = PInf"
| "np_neg NaN = NaN"

text \<open>
  Addition: \<open>inf + (-inf)\<close> is NaN; an exactly zero sum is \<open>-0.0\<close> only when both
  operands are negative zeros.
\<close>

definition np_add :: "npfloat \<Rightarrow> npfloat \<Rightarrow> npfloat" where
  "np_add a b =
     (if is_nan a \<or> is_nan b then NaN
      else if is_inf a \<and> is_inf b then (if a = b then a else NaN)
      else if is_inf a then a
      else if is_inf b then b
      else fin_sign (signbit a \<and> signbit b) (np_real a + np_real b))"

definition np_sub :: "npfloat \<Rightarrow> npfloat \<Rightarrow> npfloat" where
  "np_sub a b = np_add a (np_neg b)"

text \<open>Multiplication: \<open>inf * 0\<close> is NaN; the sign bit is the xor of the operands'.\<close>

definition np_mul :: "npfloat \<Rightarrow> npfloat \<Rightarrow> npfloat" where
  "np_mul a b =
     (if is_nan a \<or> is_nan b then NaN
      else if (is_inf a \<and> is_zero b) \<or> (is_zero a \<and> is_inf b) then NaN
      else if is_inf a \<or> is_inf b then inf_sign (signbit a \<noteq> signbit b)
      else fin_sign (signbit a \<noteq> signbit b) (np_real a * np_real b))"

text \<open>
  The IEEE division, which never raises: \<open>0/0\<close> and \<open>inf/inf\<close> are NaN, a nonzero
  value divided by a zero is an infinity.
\<close>

definition np_div :: "npfloat \<Rightarrow> npfloat \<Rightarrow> npfloat" where
  "np_div a b =
     (if is_nan a \<or> is_nan b then NaN
      else if (is_inf a \<and> is_inf b) \<or> (is_zero a \<and> is_zero b) then NaN
      else if is_inf a \<or> is_zero b then inf_sign (signbit a \<noteq> signbit b)
      else if is_inf b then zero_sign (signbit a \<noteq> signbit b)
      else fin_sign (signbit a \<noteq> signbit b) (np_real a / np_real b))"

text \<open>
  Python's own float division \<open>a / b\<close> raises ZeroDivisionError when the divisor is a
  zero of either sign; otherwise it is the IEEE division, and an overflowing quotient
  is an infinity.
\<close>

definition py_div :: "npfloat \<Rightarrow> npfloat \<Rightarrow> py_error + npfloat" where
  "py_div a b = (if is_zero b then Inl ZeroDivisionError else Inr (np_div a b))"

text \<open>
  Python's \<open>a ** 2\<close> on a float: the square. When the square of a finite float
  overflows, Python raises OverflowError; an underflowing square is \<open>0.0\<close>.
\<close>

definition py_pow2 :: "npfloat \<Rightarrow> py_error + npfloat" where
  "py_pow2 a =
     (if is_finite a \<and> is_inf (np_mul a a) then Inl OverflowError else Inr (np_mul a a))"

text \<open>\<open>np.log\<close>: \<open>-inf\<close> at a zero, NaN at a negative argument (warnings only).\<close>

fun np_log :: "npfloat \<Rightarrow> npfloat" where
  "np_log (Fin x) = (if 0 < x then fin_sign False (ln x) else if x = 0 then NInf else NaN)"
| "np_log NegZero = NInf"
| "np_log PInf = PInf"
| "np_log NInf = NaN"
| "np_log NaN = NaN"

text \<open>\<open>np.sqrt\<close>: NaN at a negative argument (warning only); \<open>sqrt(-0.0)\<close> is \<open>-0.0\<close>.\<close>

fun np_sqrt :: "npfloat \<Rightarrow> npfloat" where
  "np_sqrt (Fin x) = (if 0 \<le> x then fin_sign False (sqrt x) else NaN)"
| "np_sqrt NegZero = NegZero"
| "np_sqrt PInf = PInf"
| "np_sqrt NInf = NaN"
| "np_sqrt NaN = NaN"

text \<open>\<open>np.exp\<close> overflows to \<open>inf\<close> and underflows to \<open>0.0\<close> (warnings only).\<close>

fun np_exp :: "npfloat \<Rightarrow> npfloat" where
  "np_exp (Fin x) = fin_sign False (exp x)"
| "np_exp NegZero = Fin 1"
| "np_exp PInf = PInf"
| "np_exp NInf = Fin 0"
| "np_exp NaN = NaN"

fun np_cos :: "npfloat \<Rightarrow> npfloat" where
  "np_cos (Fin x) = fin_sign False (cos x)"
| "np_cos NegZero = Fin 1"
| "np_cos PInf = NaN"
| "np_cos NInf = NaN"
| "np_cos NaN = NaN"

section \<open>The standard normal distribution function\<close>

text \<open>
  \<open>scipy.stats.norm.cdf\<close> is the cumulative distribution function of the standard
  normal distribution. On the reals it is given here by its Maclaurin series
  \<open>1/2 + (1/sqrt (2 pi)) * (\<Sum>n. (-1)^n x^(2n+1) / (n! 2^n (2n+1)))\<close>.
\<close>

definition Phi_term :: "real \<Rightarrow> nat \<Rightarrow> real" where
  "Phi_term x n = (- 1) ^ n * x ^ (2 * n + 1) / (fact n * 2 ^ n * real (2 * n + 1))"

definition Phi :: "real \<Rightarrow> real" where
  "Phi x = 1 / 2 + (\<Sum>n. Phi_term x n) / sqrt (2 * pi)"

text \<open>
  At the special values scipy returns the limits, and NaN at NaN; far in the left
  tail the value underflows to \<open>0.0\<close>.
\<close>

fun norm_cdf :: "npfloat \<Rightarrow> npfloat" where
  "norm_cdf (Fin x) = fin_sign False (Phi x)"
| "norm_cdf NegZero = fin_sign False (Phi 0)"
| "norm_cdf PInf = Fin 1"
| "norm_cdf NInf = Fin 0"
| "norm_cdf NaN = NaN"

section \<open>The Black-Scholes pricer\<close>

text \<open>
  \<open>calculate_black_scholes(S, K, T, r, vol)\<close>. Its caller passes the Python floats of
  five number inputs, which are finite, so the arguments are the real values of finite
  floats. The expression of \<open>d1\<close> is evaluated from left to right: \<open>S / K\<close> is a
  division of Python floats and raises on a zero divisor, then \<open>vol ** 2\<close> raises when
  it overflows. No other operation raises.
\<close>

type_synonym bs_result = "npfloat \<times> npfloat \<times> npfloat \<times> npfloat"

definition calculate_black_scholes ::
  "real \<Rightarrow> real \<Rightarrow> real \<Rightarrow> real \<Rightarrow> real \<Rightarrow> py_error + bs_result" where
  "calculate_black_scholes S K T r vol =
     (case py_div (Fin S) (Fin K) of
        Inl e \<Rightarrow> Inl e
      | Inr q \<Rightarrow>
          (case py_pow2 (Fin vol) of
             Inl e \<Rightarrow> Inl e
           | Inr v2 \<Rightarrow>
               let den = np_mul (Fin vol) (np_sqrt (Fin T));
                   d1 = np_div
                          (np_add (np_log q)
                             (np_mul (np_add (Fin r) (np_mul (Fin (1 / 2)) v2)) (Fin T)))
                          den;
                   d2 = np_sub d1 den;
                   disc = np_mul (Fin K) (np_exp (np_mul (np_neg (Fin r)) (Fin T)));
                   call_price = np_sub (np_mul (Fin S) (norm_cdf d1)) (np_mul disc (norm_cdf d2));
                   put_price = np_sub (np_mul disc (norm_cdf (np_neg d2)))
                                      (np_mul (Fin S) (norm_cdf (np_neg d1)))
               in Inr (d1, d2, call_price, put_price)))"








section \<open>Arithmetic inside the float range\<close>

lemma is_finite_simps [simp]:
  "is_finite (Fin x)" "is_finite NegZero" "\<not> is_finite PInf" "\<not> is_finite NInf"
  "\<not> is_finite NaN"
  by (simp_all add: is_finite_def)

lemma fin_sign_zero: "fin_sign s 0 = zero_sign s"
  by (simp add: fin_sign_def)

lemma fin_sign_in_range: "in_float_range x \<Longrightarrow> x \<noteq> 0 \<Longrightarrow> fin_sign s x = Fin x"
  by (simp add: fin_sign_def in_float_range_def)

lemma fin_sign_False: "in_float_range x \<Longrightarrow> fin_sign False x = Fin x"
  by (cases "x = 0") (simp_all add: fin_sign_zero fin_sign_in_range zero_sign_def)









section \<open>The series of the normal distribution function\<close>











section \<open>The pricer\<close>


lemma py_div_nz: "K \<noteq> 0 \<Longrightarrow> py_div (Fin S) (Fin K) = Inr (np_div (Fin S) (Fin K))"
  by (simp add: py_div_def)







lemma in_float_range_moderate: "1 / 1000000 \<le> x \<Longrightarrow> x \<le> 1000000 \<Longrightarrow> in_float_range x"
  by (simp add: in_float_range_def float_underflow_def float_overflow_def)


section \<open>Special values in the pricer\<close>

lemma np_nan [simp]:
  "np_add NaN b = NaN" "np_add a NaN = NaN" "np_sub NaN b = NaN" "np_sub a NaN = NaN"
  "np_mul NaN b = NaN" "np_mul a NaN = NaN" "np_div NaN b = NaN" "np_div a NaN = NaN"
  by (simp_all add: np_add_def np_sub_def np_mul_def np_div_def)

lemma is_zero_zero_sign [simp]: "is_zero (zero_sign s)"
  by (simp add: zero_sign_def)

lemma np_mul_zero: "is_zero b \<Longrightarrow> np_mul a b = NaN \<or> is_zero (np_mul a b)"
  by (cases a; cases b) (simp_all add: np_mul_def fin_sign_zero)

lemma np_add_pzero: "is_zero b \<Longrightarrow> np_add (Fin 0) b = Fin 0"
  by (cases b) (simp_all add: np_add_def fin_sign_zero zero_sign_def)

lemma np_div_zero_zero: "is_zero a \<Longrightarrow> is_zero b \<Longrightarrow> np_div a b = NaN"
  by (cases a; cases b) (simp_all add: np_div_def)

lemma np_div_by_zero: "is_zero b \<Longrightarrow> is_nan (np_div a b) \<or> is_inf (np_div a b)"
  by (cases a; cases b) (simp_all add: np_div_def inf_sign_def)




lemma py_pow2_no_overflow:
  "a * a < float_overflow \<Longrightarrow> py_pow2 (Fin a) = Inr (np_mul (Fin a) (Fin a))"
  by (auto simp add: py_pow2_def np_mul_def fin_sign_def zero_sign_def inf_sign_def)

lemma bs_returns:
  assumes "K \<noteq> 0" "vol * vol < float_overflow"
  shows "\<exists>d1 d2 c p. calculate_black_scholes S K T r vol = Inr (d1, d2, c, p) \<and>
      d1 = np_div (np_add (np_log (np_div (Fin S) (Fin K)))
                    (np_mul (np_add (Fin r) (np_mul (Fin (1 / 2)) (np_mul (Fin vol) (Fin vol)))) (Fin T)))
                  (np_mul (Fin vol) (np_sqrt (Fin T)))"
  by (simp add: calculate_black_scholes_def py_div_nz[OF assms(1)] py_pow2_no_overflow[OF assms(2)] Let_def)

lemma bs_degenerate:
  assumes "K \<noteq> 0" "vol * vol < float_overflow" "is_zero (np_mul (Fin vol) (np_sqrt (Fin T)))"
  shows "\<exists>d1 d2 c p. calculate_black_scholes S K T r vol = Inr (d1, d2, c, p) \<and>
           (is_nan d1 \<or> is_inf d1)"
  using bs_returns[OF assms(1,2), of S T r] np_div_by_zero[OF assms(3)]
  by metis

lemma den_zero_expiry: "is_zero (np_mul (Fin vol) (np_sqrt (Fin 0)))"
  by (simp add: fin_sign_zero zero_sign_def np_mul_def)

text \<open>At expiry and at the money, \<open>d1\<close> is \<open>0/0\<close>, and the NaN reaches every output.\<close>

lemma bs_atm_expiry:
  assumes "K \<noteq> 0" "vol * vol < float_overflow"
  shows "calculate_black_scholes K K 0 r vol = Inr (NaN, NaN, NaN, NaN)"
proof -
  let ?drift = "np_add (Fin r) (np_mul (Fin (1 / 2)) (np_mul (Fin vol) (Fin vol)))"
  have "in_float_range 1"
    by (rule in_float_range_moderate) simp_all
  then have q: "py_div (Fin K) (Fin K) = Inr (Fin 1)"
    using assms(1) by (simp add: py_div_def np_div_def fin_sign_in_range)
  have lg: "np_log (Fin 1) = Fin 0"
    by (simp add: fin_sign_zero zero_sign_def)
  have "np_add (Fin 0) (np_mul ?drift (Fin 0)) = NaN \<or> np_add (Fin 0) (np_mul ?drift (Fin 0)) = Fin 0"
    using np_mul_zero[of "Fin 0" ?drift] np_add_pzero[of "np_mul ?drift (Fin 0)"] by auto
  then have d1: "np_div (np_add (Fin 0) (np_mul ?drift (Fin 0))) (np_mul (Fin vol) (np_sqrt (Fin 0))) = NaN"
    using np_div_zero_zero[OF _ den_zero_expiry, of "Fin 0" vol] by auto
  show ?thesis
    unfolding calculate_black_scholes_def q sum.case py_pow2_no_overflow[OF assms(2)] Let_def lg d1
    by simp
qed




lemma sqrt_small: "sqrt (1 / 10 ^ 300) = 1 / 10 ^ 150"
proof (rule real_sqrt_unique)
  have "(10 ^ 150 :: real)\<^sup>2 = 10 ^ (150 * 2)"
    by (rule power_mult[symmetric])
  then show "(1 / 10 ^ 150 :: real)\<^sup>2 = 1 / 10 ^ 300"
    by (simp add: power_divide)
  show "0 \<le> (1 / 10 ^ 150 :: real)"
    by simp
qed

lemma fin_sign_underflow: "0 < x \<Longrightarrow> x \<le> float_underflow \<Longrightarrow> fin_sign s x = Fin 0"
proof -
  assume a: "0 < x" "x \<le> float_underflow"
  have "float_underflow < float_overflow"
    by (simp add: float_underflow_def float_overflow_def)
  with a show ?thesis
    by (simp add: fin_sign_def zero_sign_def)
qed

lemma den_underflow: "np_mul (Fin (1 / 10 ^ 200)) (np_sqrt (Fin (1 / 10 ^ 300))) = Fin 0"
proof -
  have "in_float_range (1 / 10 ^ 150)"
    by (simp add: in_float_range_def float_underflow_def float_overflow_def)
  then have f: "fin_sign False (1 / 10 ^ 150) = Fin (1 / 10 ^ 150)"
    by (rule fin_sign_False)
  have "np_sqrt (Fin (1 / 10 ^ 300)) = fin_sign False (sqrt (1 / 10 ^ 300))"
    by simp
  then have s: "np_sqrt (Fin (1 / 10 ^ 300)) = Fin (1 / 10 ^ 150)"
    by (simp only: sqrt_small f)
  have "(1 / 10 ^ 200 :: real) * (1 / 10 ^ 150) \<le> float_underflow"
    by (simp add: float_underflow_def)
  then have "fin_sign False ((1 / 10 ^ 200) * (1 / 10 ^ 150)) = Fin 0"
    by (intro fin_sign_underflow) simp_all
  then show ?thesis
    unfolding s by (simp add: np_mul_def)
qed







text \<open>
  Claim C4, as amended. The pricer validates nothing. Called with \<open>T = 0\<close>, or with any
  input for which the product \<open>vol * sqrt(T)\<close> that it computes is a zero (\<open>vol = 0\<close>, or
  an underflow), it returns normally a result whose \<open>d1\<close> is NaN or an infinity,
  provided \<open>K\<close> is not zero and \<open>vol ** 2\<close> does not overflow (the two cases in which
  Python raises ZeroDivisionError and OverflowError). With \<open>T = 0\<close> and \<open>S = K\<close> all
  four outputs are NaN.
\<close>

theorem pricer_degenerate:
  assumes "K \<noteq> 0" and "vol * vol < float_overflow"
    and "T = 0 \<or> is_zero (np_mul (Fin vol) (np_sqrt (Fin T)))"
  shows "(\<exists>d1 d2 c p. calculate_black_scholes S K T r vol = Inr (d1, d2, c, p) \<and>
            (is_nan d1 \<or> is_inf d1)) \<and>
         (T = 0 \<and> S = K \<longrightarrow> calculate_black_scholes S K T r vol = Inr (NaN, NaN, NaN, NaN))"
proof -
  have "is_zero (np_mul (Fin vol) (np_sqrt (Fin T)))"
  proof (cases "T = 0")
    case True
    show ?thesis unfolding True by (rule den_zero_expiry)
  next
    case False
    with assms(3) show ?thesis by blast
  qed
  then show ?thesis
    using bs_degenerate[OF assms(1,2), of T S r] bs_atm_expiry[OF assms(1,2), of r] by blast
qed

text \<open>
  The witness is an underflow: at \<open>T = 1e-300\<close> and \<open>vol = 1e-200\<close> the product
  \<open>vol * sqrt(T)\<close> is \<open>1e-350\<close>, which is below the smallest positive float.
\<close>

theorem pricer_degenerate_witness:
  "(40::real) \<noteq> 0 \<and> (1 / 10 ^ 200 * (1 / 10 ^ 200) :: real) < float_overflow \<and>
   is_zero (np_mul (Fin (1 / 10 ^ 200)) (np_sqrt (Fin (1 / 10 ^ 300)))) \<and>
   (\<exists>d1 d2 c p. calculate_black_scholes 40 40 (1 / 10 ^ 300) 0 (1 / 10 ^ 200) = Inr (d1, d2, c, p) \<and>
            (is_nan d1 \<or> is_inf d1))"
proof -
  have h: "(40::real) \<noteq> 0" "(1 / 10 ^ 200 * (1 / 10 ^ 200) :: real) < float_overflow"
    by (simp_all add: float_overflow_def)
  have z: "is_zero (np_mul (Fin (1 / 10 ^ 200)) (np_sqrt (Fin (1 / 10 ^ 300))))"
    unfolding den_underflow by simp
  show ?thesis
    using pricer_degenerate[OF h disjI2[OF z], of 40 0] h z by blast
qed

text \<open>
  The claim as stated fails: at \<open>S = K = 40\<close>, \<open>T = 0\<close>, \<open>r = 0.1\<close>, \<open>vol = 0.2\<close> the
  pricer returns normally, and every output is NaN.
\<close>

theorem pricer_expiry_counterexample:
  "calculate_black_scholes 40 40 0 (1 / 10) (1 / 5) = Inr (NaN, NaN, NaN, NaN)"
  by (rule bs_atm_expiry) (simp_all add: float_overflow_def)

end
